theory Spec2Isabelle
  imports Complex_Main "HOL-Library.Sublist"
begin

section \<open>Strings: the library functions used by package chronos\<close>


text \<open>The character class \<open>[a-z]\<close>.\<close>

definition isLower :: "char \<Rightarrow> bool" where
  "isLower c = ((97::nat) \<le> of_char c \<and> of_char c \<le> (122::nat))"

text \<open>The ASCII white space of \<open>unicode.IsSpace\<close>: tab, line feed, vertical tab, form
  feed, carriage return and space.\<close>

definition isSpace :: "char \<Rightarrow> bool" where
  "isSpace c = ((of_char c :: nat) \<in> {9, 10, 11, 12, 13, 32})"

text \<open>\<open>strings.TrimSpace\<close>: leading and trailing white space removed.\<close>

definition TrimSpace :: "string \<Rightarrow> string" where
  "TrimSpace s = rev (dropWhile isSpace (rev (dropWhile isSpace s)))"

text \<open>
  \<open>strings.Split(s, sep)\<close> cuts \<open>s\<close> at every occurrence of \<open>sep\<close>, found from left to
  right without overlap; \<open>cur\<close> is the piece being read. With an empty separator Go cuts
  after every character.
\<close>

function Split_from :: "string \<Rightarrow> string \<Rightarrow> string \<Rightarrow> string list" where
  "Split_from sep cur [] = [cur]"
| "Split_from sep cur (c # cs) =
     (if sep \<noteq> [] \<and> prefix sep (c # cs)
      then cur # Split_from sep [] (drop (length sep) (c # cs))
      else Split_from sep (cur @ [c]) cs)"
  by pat_completeness auto
termination
  by (relation "measure (\<lambda>(sep, cur, s). length s)") auto

definition Split :: "string \<Rightarrow> string \<Rightarrow> string list" where
  "Split s sep = (if sep = [] then map (\<lambda>c. [c]) s else Split_from sep [] s)"

text \<open>\<open>strings.Join(elems, sep)\<close>.\<close>

fun Join :: "string list \<Rightarrow> string \<Rightarrow> string" where
  "Join [] sep = []"
| "Join [x] sep = x"
| "Join (x # y # ys) sep = x @ sep @ Join (y # ys) sep"

text \<open>
  \<open>regexp.MustCompile("[a-z]*").FindAllString(s, -1)\<close>. The expression matches the empty
  string, so at every position the leftmost match starts there and, being greedy, takes the
  whole run of lowercase letters. The loop of the library (\<open>allMatches\<close>) is followed step
  by step: the argument is the input from the current position on, and \<open>abut\<close> says that
  the previous match ended at the current position. A match that is not empty is delivered
  and the position moves to its end. An empty match is delivered unless it abuts the
  previous match, and the position moves one character on, or past the end when no
  character is left.
\<close>

function FindAllString_lower :: "string \<Rightarrow> bool \<Rightarrow> string list" where
  "FindAllString_lower s abut =
     (if takeWhile isLower s \<noteq> []
      then takeWhile isLower s # FindAllString_lower (dropWhile isLower s) True
      else (case s of
              [] \<Rightarrow> (if abut then [] else [[]])
            | c # cs \<Rightarrow> (if abut then FindAllString_lower cs False
                        else [] # FindAllString_lower cs False)))"
  by pat_completeness auto
termination
proof (relation "measure (\<lambda>(s, abut). length s)")
  show "wf (measure (\<lambda>(s, abut). length s))" by simp
next
  fix s :: string and abut :: bool
  assume "takeWhile isLower s \<noteq> []"
  then obtain c cs where tw: "takeWhile isLower s = c # cs"
    by (cases "takeWhile isLower s") auto
  have "length (takeWhile isLower s) + length (dropWhile isLower s) = length s"
    by (metis length_append takeWhile_dropWhile_id)
  with tw have "length (dropWhile isLower s) < length s"
    by simp
  then show "((dropWhile isLower s, True), (s, abut)) \<in> measure (\<lambda>(s, abut). length s)"
    by simp
qed auto

declare FindAllString_lower.simps [simp del]

section \<open>TaskNamer\<close>

text \<open>The part of one token of the command in the task name (the body of the loop of
  \<open>sanitizedCommand\<close>).\<close>

definition segment :: "string \<Rightarrow> string" where
  "segment c = Join (FindAllString_lower (TrimSpace c) False) ''-''"

definition sanitizedCommand :: "string \<Rightarrow> string" where
  "sanitizedCommand cmd = Join (map segment (Split cmd '' '')) ''-''"

text \<open>The field \<open>TaskName\<close> that \<open>RunCommand\<close> computes.\<close>

definition TaskName_of :: "string \<Rightarrow> string \<Rightarrow> string \<Rightarrow> string" where
  "TaskName_of app env cmd = Join [app, env, sanitizedCommand cmd] ''-''"

section \<open>Data model\<close>

text \<open>
  Modelled from the spec: the type \<open>Task\<close> of package \<open>mesos\<close>. That package (the types
  \<open>Task\<close>, \<open>Tasks\<close> and \<open>Logs\<close>, the state constants and the methods \<open>Duration\<close>,
  \<open>LogDirectory\<close>, \<open>SlaveIP\<close> and \<open>TasksFor\<close>) is not among the sources; only the field
  \<open>State\<close> is read by the code at hand. The record follows the data model of the
  specification: identifier,
  name, state, directory, worker identifier, and the start and stop timestamps, which are
  absent before execution. Timestamps are seconds; they are real numbers here, so the
  rounding of the floating-point subtraction is not modelled.
\<close>

record Task =
  ID :: string
  Name :: string
  State :: string
  Directory :: string
  SlaveID :: string
  Start :: "real option"
  Stop :: "real option"

text \<open>Modelled from the spec: the state constants of package \<open>mesos\<close>, which is not among
  the sources. The specification names the states Staging, Running, Finished, Failed and
  Killed; the strings are those of the cluster manager. The \<open>switch\<close> of \<open>handleTask\<close>
  compiles only if they are distinct.\<close>

definition TaskStaging :: string where "TaskStaging = ''TASK_STAGING''"
definition TaskRunning :: string where "TaskRunning = ''TASK_RUNNING''"
definition TaskFinished :: string where "TaskFinished = ''TASK_FINISHED''"
definition TaskFailed :: string where "TaskFailed = ''TASK_FAILED''"
definition TaskKilled :: string where "TaskKilled = ''TASK_KILLED''"

text \<open>
  The errors that the functions return. \<open>ErrExternal\<close> is an error of a collaborator
  (transport, decoding, rendering, \<open>TasksFor\<close>) with its message; \<open>ErrLaunch\<close> is
  \<open>failed to launch command: <body>\<close>; \<open>ErrTaskFailed\<close> and \<open>ErrTaskKilled\<close> carry the
  duration of \<open>task failed: <d> seconds\<close> and \<open>task killed: <d> seconds\<close>;
  \<open>ErrUnhandledState\<close> is \<open>task state unhandled: <state>\<close>; \<open>ErrForbidden\<close> is the
  message of \<open>fetchCurrentTag\<close> for the application and environment.
\<close>

datatype error =
    ErrExternal string
  | ErrMissingTimestamp
  | ErrLaunch string
  | ErrTaskFailed real
  | ErrTaskKilled real
  | ErrUnhandledState string
  | ErrForbidden string string

text \<open>Modelled from the spec: the method \<open>Duration\<close> of \<open>mesos.Task\<close>, which is not among
  the sources. It fails with MissingTimestamp if either the start or the stop timestamp is
  absent, and is the stop timestamp minus the start timestamp, in seconds, otherwise.\<close>

definition Duration :: "Task \<Rightarrow> error + real" where
  "Duration t =
     (case Start t of
        None \<Rightarrow> Inl ErrMissingTimestamp
      | Some t0 \<Rightarrow> (case Stop t of
                     None \<Rightarrow> Inl ErrMissingTimestamp
                   | Some t1 \<Rightarrow> Inr (t1 - t0)))"

text \<open>
  What the process does to the outside: text written to standard output
  (\<open>PrintFinished d\<close> is the line \<open>task finished: <d> seconds\<close>, whose number is not
  formatted here), and the command \<open>open <url>\<close> run by \<open>openLogPage\<close>. The pause of half
  a second before each poll leaves no event.
\<close>

datatype event =
    Print string
  | PrintFinished real
  | Open string

text \<open>How a call ends: it returns a value, the process exits with a status
  (\<open>os.Exit\<close>), or the process panics.\<close>

datatype 'a outcome =
    Returns 'a
  | Exits int
  | Panics string

text \<open>The response of an HTTP GET: status code, status line, and what decoding its body
  as \<open>mesos.Logs\<close> gives: the error of the decoder, if any, and the field \<open>Data\<close>
  afterwards.\<close>

record response =
  StatusCode :: int
  Status :: string
  Decoded :: "string option \<times> string"

record TaskVars =
  App :: string
  Env :: string
  Tag :: string
  Command :: string
  TaskName :: string

text \<open>
  The outside world at one moment: the configuration and the answers of the
  collaborators, as parameters of the model.
  \<^item> \<open>marathon_host\<close>, \<open>chronos_host\<close>: the configuration values.
  \<^item> \<open>get_tasks offset\<close>: the GET of \<open>/mesos/tasks?offset=<offset>\<close> and the decoding of
    its body, an error (transport or decoding) or the records of the page.
  \<^item> \<open>TasksFor name tasks\<close>: the method of \<open>mesos.Tasks\<close>, not among the sources.
  \<^item> \<open>LogDirectory_open\<close>, \<open>LogDirectory_print\<close>: the answer of \<open>LogDirectory\<close> to the
    call in \<open>openLogPage\<close> and to the call in \<open>printLogs\<close> (the error message, or the
    directory); \<open>SlaveIP\<close> likewise.
  \<^item> \<open>Start_open url\<close>: the error of \<open>cmd.Start()\<close> for \<open>open <url>\<close>, if any.
  \<^item> \<open>http_Get url\<close>: the pair \<open>(resp, err)\<close> that \<open>http.Get\<close> returns for the log file;
    \<open>resp\<close> is \<open>nil\<close> (\<open>None\<close>) on a transport error.
  \<^item> \<open>render\<close>: \<open>renderChronosTaskJSON\<close>, whose template is not among the sources.
  \<^item> \<open>http_Post url body\<close>: an error, or the status code and the body of the response.
  \<^item> \<open>consul_Get app env\<close>: the GET of the current deployment tag: an error, or the
    status code and the result of reading the body.
\<close>

record world =
  marathon_host :: string
  chronos_host :: string
  get_tasks :: "int \<Rightarrow> error + Task list"
  TasksFor :: "string \<Rightarrow> Task list \<Rightarrow> error + Task list"
  LogDirectory_open :: "Task \<Rightarrow> string + string"
  LogDirectory_print :: "Task \<Rightarrow> string + string"
  SlaveIP :: "Task \<Rightarrow> string + string"
  Start_open :: "string \<Rightarrow> string option"
  http_Get :: "string \<Rightarrow> response option \<times> string option"
  render :: "TaskVars \<Rightarrow> error + string"
  http_Post :: "string \<Rightarrow> string \<Rightarrow> error + (int \<times> string)"
  consul_Get :: "string \<Rightarrow> string \<Rightarrow> error + (int \<times> (error + string))"

section \<open>TaskCatalogClient\<close>

text \<open>
  The loop of \<open>scheduledTasks\<close>: \<open>offset\<close> and \<open>tasks\<close> are the variables of the source,
  \<open>reqs\<close> records the offsets requested so far. The loop has no bound: when every page has
  100 records or more it does not return, which is the value \<open>None\<close>. (The offset is a
  64-bit \<open>int\<close> in the source; it is an unbounded integer here.)
\<close>

partial_function (option) scheduledTasks_loop ::
  "(int \<Rightarrow> error + Task list) \<Rightarrow> int \<Rightarrow> Task list \<Rightarrow> int list
     \<Rightarrow> ((error + Task list) \<times> int list) option" where
  "scheduledTasks_loop get offset tasks reqs =
     (case get offset of
        Inl err \<Rightarrow> Some (Inl err, reqs @ [offset])
      | Inr t \<Rightarrow>
          if length t \<ge> 100
          then scheduledTasks_loop get (offset + 100) (tasks @ t) (reqs @ [offset])
          else Some (Inr (tasks @ t), reqs @ [offset]))"

definition scheduledTasks :: "world \<Rightarrow> string \<Rightarrow> (error + Task list) option" where
  "scheduledTasks w name =
     (case scheduledTasks_loop (get_tasks w) 0 [] [] of
        None \<Rightarrow> None
      | Some (Inl err, reqs) \<Rightarrow> Some (Inl err)
      | Some (Inr tasks, reqs) \<Rightarrow> Some (TasksFor w name tasks))"

section \<open>LogFetcher\<close>

text \<open>\<open>regexp.MustCompile("cpp:").MatchString(l)\<close>: the line contains \<open>cpp:\<close>.\<close>

fun contains :: "string \<Rightarrow> string \<Rightarrow> bool" where
  "contains sub [] = (sub = [])"
| "contains sub (c # cs) = (prefix sub (c # cs) \<or> contains sub cs)"

text \<open>Running one action after another: the second runs only if the first returns.\<close>

definition andThen ::
  "unit outcome \<times> event list \<Rightarrow> 'a outcome \<times> event list \<Rightarrow> 'a outcome \<times> event list" where
  "andThen a b =
     (case fst a of
        Returns u \<Rightarrow> (fst b, snd a @ snd b)
      | Exits n \<Rightarrow> (Exits n, snd a)
      | Panics m \<Rightarrow> (Panics m, snd a))"

definition openLogPage :: "world \<Rightarrow> Task \<Rightarrow> unit outcome \<times> event list" where
  "openLogPage w t =
     (case LogDirectory_open w t of
        Inl err \<Rightarrow> (Exits (- 1), [Print (''cannot fetch logs: '' @ err @ [CHR 0x0A])])
      | Inr dir \<Rightarrow>
          (let p = Split dir ''/var/lib/mesos/slave/slaves/'' in
           if length p < 2 then (Panics ''index out of range'', [])
           else
             (let slaveID = hd (Split (p ! 1) ''/'');
                  url = marathon_host w @ ''/mesos/#/agents/'' @ slaveID @ ''/browse?path='' @ dir
              in (case Start_open w url of
                    Some err \<Rightarrow>
                      (Returns (), [Open url, Print (''could not open link to task logs'' @ [CHR 0x0A])])
                  | None \<Rightarrow> (Returns (), [Open url])))))"

text \<open>The stream that \<open>printLogs\<close> reads, and the address of the log file.\<close>

definition log_stream :: "Task \<Rightarrow> string" where
  "log_stream t = (if State t = TaskFinished then ''stdout'' else ''stderr'')"

definition log_url :: "string \<Rightarrow> string \<Rightarrow> string \<Rightarrow> string" where
  "log_url ip dir out =
     ''http://'' @ ip @ '':5051/files/read?path='' @ dir @ ''/'' @ out @ ''&offset=0''"

text \<open>
  \<open>printLogs\<close>. After \<open>http.Get\<close> the source tests \<open>err != nil || resp.StatusCode != 200\<close>
  and prints \<open>resp.Status\<close>; it has no \<open>return\<close> there, and goes on to decode
  \<open>resp.Body\<close>. With \<open>resp\<close> absent, the first read of a field of \<open>resp\<close> panics:
  \<open>resp.Status\<close> when \<open>err\<close> is set, \<open>resp.StatusCode\<close> otherwise.
\<close>

definition printLogs :: "world \<Rightarrow> Task \<Rightarrow> unit outcome \<times> event list" where
  "printLogs w t =
     (case LogDirectory_print w t of
        Inl err \<Rightarrow> (Exits (- 1), [Print (''cannot fetch logs: '' @ err @ [CHR 0x0A])])
      | Inr dir \<Rightarrow>
          (let out = log_stream t in
           case SlaveIP w t of
             Inl err \<Rightarrow> (Returns (), [Print (err @ [CHR 0x0A])])
           | Inr ip \<Rightarrow>
               (case http_Get w (log_url ip dir out) of
                  (None, Some err) \<Rightarrow>
                    (Panics ''nil pointer dereference: resp.Status'', [])
                | (None, None) \<Rightarrow>
                    (Panics ''nil pointer dereference: resp.StatusCode'', [])
                | (Some resp, err) \<Rightarrow>
                    (Returns (),
                     (if err \<noteq> None \<or> StatusCode resp \<noteq> 200
                      then [Print (''could not fetch logs: '' @ Status resp @ [CHR 0x0A])]
                      else [])
                     @ (case fst (Decoded resp) of
                          Some derr \<Rightarrow> [Print (derr @ [CHR 0x0A])]
                        | None \<Rightarrow> [])
                     @ map (\<lambda>l. Print ([CHR 0x0D] @ l @ [CHR 0x0A]))
                         (filter (\<lambda>l. \<not> contains ''cpp:'' l)
                            (Split (snd (Decoded resp)) [CHR 0x0A]))))))"

section \<open>LifecycleMonitor\<close>

text \<open>What one round of the loop of \<open>handleTask\<close> decides: poll again, or return.\<close>

datatype step =
    Continue
  | Return "error option"

text \<open>The \<open>switch\<close> on the state of the selected record, with the line printed before
  it.\<close>

definition state_line :: "Task \<Rightarrow> event" where
  "state_line task =
     Print ([CHR 0x0D] @ ''task state: '' @ State task @ ''           '' @ [CHR 0x0A])"

definition handleTask_switch :: "world \<Rightarrow> Task \<Rightarrow> step outcome \<times> event list" where
  "handleTask_switch w task =
     andThen (Returns (), [state_line task])
       (if State task = TaskRunning then
          andThen (openLogPage w task) (Returns Continue, [])
        else if State task = TaskStaging then
          (Returns Continue, [])
        else if State task = TaskFinished then
          andThen (openLogPage w task)
            (case Duration task of
               Inl err \<Rightarrow> (Returns (Return (Some err)), [])
             | Inr dur \<Rightarrow>
                 andThen (Returns (), [PrintFinished dur])
                   (andThen (printLogs w task) (Returns (Return None), [])))
        else if State task = TaskFailed then
          andThen (openLogPage w task)
            (andThen (printLogs w task)
               (case Duration task of
                  Inl err \<Rightarrow> (Returns (Return (Some err)), [])
                | Inr dur \<Rightarrow> (Returns (Return (Some (ErrTaskFailed dur))), [])))
        else if State task = TaskKilled then
          (case Duration task of
             Inl err \<Rightarrow> (Returns (Return (Some err)), [])
           | Inr dur \<Rightarrow> (Returns (Return (Some (ErrTaskKilled dur))), []))
        else
          (Returns (Return (Some (ErrUnhandledState (State task)))), []))"

text \<open>
  One round of the loop of \<open>handleTask\<close> in the world \<open>w\<close>: the fetch, the comparison of
  the number of records with \<open>count\<close>, and the \<open>switch\<close> on \<open>tasks[0]\<close>. \<open>None\<close>: the fetch
  does not return. \<open>count\<close> is an \<open>int\<close> as in the source; with \<open>count = -1\<close> an empty
  result reaches \<open>tasks[0]\<close>, which panics.
\<close>

definition handleTask_round ::
  "world \<Rightarrow> string \<Rightarrow> int \<Rightarrow> (step outcome \<times> event list) option" where
  "handleTask_round w name count =
     (case scheduledTasks w name of
        None \<Rightarrow> None
      | Some (Inl err) \<Rightarrow> Some (Returns (Return (Some err)), [])
      | Some (Inr tasks) \<Rightarrow>
          if int (length tasks) = count then Some (Returns Continue, [Print ''.''])
          else if int (length tasks) = count + 1 then
            (case tasks of
               [] \<Rightarrow> Some (Panics ''index out of range'', [])
             | task # rest \<Rightarrow> Some (handleTask_switch w task))
          else Some (Returns Continue, []))"

text \<open>
  The loop of \<open>handleTask\<close>. The world may change between polls: \<open>ws i\<close> is the world at
  the poll number \<open>i\<close>, and \<open>out\<close> the events so far. The loop has no bound and no timeout;
  not returning is the value \<open>None\<close>.
\<close>

partial_function (option) handleTask_loop ::
  "(nat \<Rightarrow> world) \<Rightarrow> string \<Rightarrow> int \<Rightarrow> nat \<Rightarrow> event list
     \<Rightarrow> (error option outcome \<times> event list) option" where
  "handleTask_loop ws name count i out =
     (case handleTask_round (ws i) name count of
        None \<Rightarrow> None
      | Some (Returns Continue, evs) \<Rightarrow> handleTask_loop ws name count (Suc i) (out @ evs)
      | Some (Returns (Return r), evs) \<Rightarrow> Some (Returns r, out @ evs)
      | Some (Exits n, evs) \<Rightarrow> Some (Exits n, out @ evs)
      | Some (Panics m, evs) \<Rightarrow> Some (Panics m, out @ evs))"

definition handleTask ::
  "(nat \<Rightarrow> world) \<Rightarrow> string \<Rightarrow> int \<Rightarrow> (error option outcome \<times> event list) option" where
  "handleTask ws name count =
     handleTask_loop ws name count 0 [Print (''scheduling task'' @ [CHR 0x0A])]"

section \<open>JobSubmitter\<close>

text \<open>Events of a first part followed by a computation that may not return.\<close>

definition after ::
  "event list \<Rightarrow> ('a outcome \<times> event list) option \<Rightarrow> ('a outcome \<times> event list) option" where
  "after evs r = map_option (\<lambda>(x, out). (x, evs @ out)) r"

text \<open>The line printed when the scheduler has accepted the job.\<close>

definition executing_line :: "TaskVars \<Rightarrow> event" where
  "executing_line task =
     Print (''executing '' @ [CHR 0x27] @ Command task @ [CHR 0x27]
            @ '' in instance of '' @ App task @ '':'' @ Tag task
            @ '' ('' @ Env task @ '')'' @ [CHR 0x0A])"

text \<open>
  \<open>launchChronosOneOffCommand\<close>: \<open>w\<close> is the world at the submission, \<open>ws\<close> the worlds at
  the polls that follow. The error of reading the body of a rejected submission is dropped
  in the source; \<open>body\<close> is what was read.
\<close>

definition launchChronosOneOffCommand ::
  "world \<Rightarrow> (nat \<Rightarrow> world) \<Rightarrow> string \<Rightarrow> TaskVars
     \<Rightarrow> (error option outcome \<times> event list) option" where
  "launchChronosOneOffCommand w ws url task =
     (case scheduledTasks w (TaskName task) of
        None \<Rightarrow> None
      | Some (Inl err) \<Rightarrow> Some (Returns (Some err), [])
      | Some (Inr tasks) \<Rightarrow>
          (case render w task of
             Inl err \<Rightarrow> Some (Returns (Some err), [])
           | Inr cj \<Rightarrow>
               (case http_Post w url cj of
                  Inl err \<Rightarrow> Some (Returns (Some err), [])
                | Inr (code, body) \<Rightarrow>
                    if code \<noteq> 204 then Some (Returns (Some (ErrLaunch body)), [])
                    else
                      after [executing_line task]
                        (handleTask ws (TaskName task) (int (length tasks))))))"

definition fetchCurrentTag :: "world \<Rightarrow> string \<Rightarrow> string \<Rightarrow> error + string" where
  "fetchCurrentTag w app env =
     (case consul_Get w app env of
        Inl err \<Rightarrow> Inl err
      | Inr (code, body) \<Rightarrow> if code = 403 then Inl (ErrForbidden app env) else body)"

definition RunCommand ::
  "world \<Rightarrow> (nat \<Rightarrow> world) \<Rightarrow> string \<Rightarrow> string \<Rightarrow> string
     \<Rightarrow> (error option outcome \<times> event list) option" where
  "RunCommand w ws app env cmd =
     (case fetchCurrentTag w app env of
        Inl err \<Rightarrow> Some (Returns (Some err), [])
      | Inr tag \<Rightarrow>
          launchChronosOneOffCommand w ws
            (chronos_host w @ ''/service/chronos/v1/scheduler/iso8601'')
            \<lparr>App = app, Env = env, Tag = tag, Command = cmd,
             TaskName = TaskName_of app env cmd\<rparr>)"

section \<open>Sample worlds\<close>

text \<open>
  Concrete inputs on which the theorems below are exercised. A sample job has both
  timestamps (start 0, stop 12) and a directory under the marker that \<open>openLogPage\<close>
  looks for. In a sample world the catalog serves its records in pages of 100, \<open>TasksFor\<close>
  keeps the records of the name, in order, and every collaborator answers without error.
\<close>

definition job :: "string \<Rightarrow> string \<Rightarrow> Task" where
  "job name state =
     \<lparr>ID = ''ct:0:0:'' @ name, Name = name, State = state,
      Directory = ''/var/lib/mesos/slave/slaves/S1/frameworks/F/executors/E/runs/R'',
      SlaveID = ''S1'', Start = Some 0, Stop = Some 12\<rparr>"

definition sample_world :: "Task list \<Rightarrow> world" where
  "sample_world catalog =
     \<lparr>marathon_host = ''http://marathon'',
      chronos_host = ''http://chronos'',
      get_tasks = (\<lambda>offset. Inr (take 100 (drop (nat offset) catalog))),
      TasksFor = (\<lambda>name tasks. Inr (filter (\<lambda>t. Name t = name) tasks)),
      LogDirectory_open = (\<lambda>t. Inr (Directory t)),
      LogDirectory_print = (\<lambda>t. Inr (Directory t)),
      SlaveIP = (\<lambda>t. Inr ''10.0.0.7''),
      Start_open = (\<lambda>url. None),
      http_Get = (\<lambda>url. (Some \<lparr>StatusCode = 200, Status = ''200 OK'',
                                  Decoded = (None, ''done'')\<rparr>, None)),
      render = (\<lambda>task. Inr ''{}''),
      http_Post = (\<lambda>url body. Inr (204, [])),
      consul_Get = (\<lambda>app env. Inr (200, Inr ''v1''))\<rparr>"

text \<open>A run in which the job \<open>x\<close> is seen running at the first two polls and killed
  afterwards.\<close>

definition sample_run :: "nat \<Rightarrow> world" where
  "sample_run i = sample_world [job ''x'' (if i < 2 then TaskRunning else TaskKilled)]"

text \<open>A sample job named \<open>x\<close> that has no stop timestamp.\<close>

definition unstopped :: "string \<Rightarrow> Task" where
  "unstopped state = (job ''x'' state)\<lparr>Stop := None\<rparr>"

text \<open>A run in which the catalog does not change.\<close>

definition steady :: "Task list \<Rightarrow> nat \<Rightarrow> world" where
  "steady catalog i = sample_world catalog"

text \<open>A finished job whose log directory cannot be resolved when the logs are printed.\<close>

definition lost_directory :: "nat \<Rightarrow> world" where
  "lost_directory i =
     (sample_world [job ''x'' TaskFinished])\<lparr>LogDirectory_print := (\<lambda>t. Inl ''no such task'')\<rparr>"

text \<open>A failed job whose log directory cannot be resolved when the log page is opened.\<close>

definition lost_page :: world where
  "lost_page =
     (sample_world [job ''x'' TaskFailed])\<lparr>LogDirectory_open := (\<lambda>t. Inl ''no such task'')\<rparr>"

text \<open>A worker that refuses the connection: \<open>http.Get\<close> gives no response and an error.\<close>

definition unreachable_worker :: world where
  "unreachable_worker =
     (sample_world [job ''x'' TaskFailed])\<lparr>http_Get := (\<lambda>url. (None, Some ''connection refused''))\<rparr>"

text \<open>A worker whose address cannot be resolved, and one that answers 404 with a body that
  does not decode.\<close>

definition unknown_worker :: world where
  "unknown_worker =
     (sample_world [job ''x'' TaskFailed])\<lparr>SlaveIP := (\<lambda>t. Inl ''no such slave'')\<rparr>"

definition missing_file :: world where
  "missing_file =
     (sample_world [job ''x'' TaskFailed])
       \<lparr>http_Get := (\<lambda>url. (Some \<lparr>StatusCode = 404, Status = ''404 Not Found'',
                                     Decoded = (Some ''EOF'', [])\<rparr>, None))\<rparr>"

text \<open>A scheduler that rejects the submission.\<close>

definition rejecting :: world where
  "rejecting = (sample_world [])\<lparr>http_Post := (\<lambda>url body. Inr (500, ''boom''))\<rparr>"

definition sample_task :: TaskVars where
  "sample_task = \<lparr>App = ''foo'', Env = ''production'', Tag = ''v1'', Command = ''rake'',
                   TaskName = ''x''\<rparr>"



section \<open>Properties of the task name\<close>














section \<open>Properties of the monitor\<close>

text \<open>One round of the loop, unfolded.\<close>

lemma handleTask_loop_continue:
  "handleTask_round (ws i) name count = Some (Returns Continue, evs) \<Longrightarrow>
   handleTask_loop ws name count i out = handleTask_loop ws name count (Suc i) (out @ evs)"
  by (subst handleTask_loop.simps) simp

lemma handleTask_loop_return:
  "handleTask_round (ws i) name count = Some (Returns (Return r), evs) \<Longrightarrow>
   handleTask_loop ws name count i out = Some (Returns r, out @ evs)"
  by (subst handleTask_loop.simps) simp

lemma handleTask_loop_exit:
  "handleTask_round (ws i) name count = Some (Exits n, evs) \<Longrightarrow>
   handleTask_loop ws name count i out = Some (Exits n, out @ evs)"
  by (subst handleTask_loop.simps) simp

lemma handleTask_loop_panic:
  "handleTask_round (ws i) name count = Some (Panics m, evs) \<Longrightarrow>
   handleTask_loop ws name count i out = Some (Panics m, out @ evs)"
  by (subst handleTask_loop.simps) simp

lemma handleTask_round_select:
  "scheduledTasks w name = Some (Inr (t # rest)) \<Longrightarrow> int (length (t # rest)) = count + 1 \<Longrightarrow>
   handleTask_round w name count = Some (handleTask_switch w t)"
  by (simp add: handleTask_round_def)

lemma handleTask_round_other:
  "scheduledTasks w name = Some (Inr tasks) \<Longrightarrow> int (length tasks) \<noteq> count \<Longrightarrow>
   int (length tasks) \<noteq> count + 1 \<Longrightarrow>
   handleTask_round w name count = Some (Returns Continue, [])"
  by (simp add: handleTask_round_def)

lemma handleTask_round_same:
  "scheduledTasks w name = Some (Inr tasks) \<Longrightarrow> int (length tasks) = count \<Longrightarrow>
   handleTask_round w name count = Some (Returns Continue, [Print ''.''])"
  by (simp add: handleTask_round_def)


lemma states_distinct:
  "TaskRunning \<noteq> TaskStaging" "TaskRunning \<noteq> TaskFinished" "TaskRunning \<noteq> TaskFailed"
  "TaskRunning \<noteq> TaskKilled" "TaskStaging \<noteq> TaskFinished" "TaskStaging \<noteq> TaskFailed"
  "TaskStaging \<noteq> TaskKilled" "TaskFinished \<noteq> TaskFailed" "TaskFinished \<noteq> TaskKilled"
  "TaskFailed \<noteq> TaskKilled"
  by (simp_all add: TaskRunning_def TaskStaging_def TaskFinished_def TaskFailed_def TaskKilled_def)

lemma scheduledTasks_sample:
  "length catalog < 100 \<Longrightarrow>
   scheduledTasks (sample_world catalog) name = Some (Inr (filter (\<lambda>t. Name t = name) catalog))"
  unfolding scheduledTasks_def
  by (subst scheduledTasks_loop.simps) (simp add: sample_world_def)

lemma openLogPage_sample:
  "openLogPage (sample_world c) (job n s) =
    (Returns (), [Open ''http://marathon/mesos/#/agents/S1/browse?path=/var/lib/mesos/slave/slaves/S1/frameworks/F/executors/E/runs/R''])"
  by (simp add: openLogPage_def sample_world_def job_def Split_def Let_def)

lemma printLogs_sample:
  "printLogs (sample_world c) (job n s) = (Returns (), [Print ([CHR 0x0D] @ ''done'' @ [CHR 0x0A])])"
  by (simp add: printLogs_def sample_world_def job_def Split_def Let_def)

lemma Duration_job: "Duration (job n s) = Inr 12"
  by (simp add: Duration_def job_def)

lemma State_job: "State (job n s) = s" "Name (job n s) = n"
  by (simp_all add: job_def)

text \<open>
  Claim C1. For every baseline count \<open>N\<close>: when a poll returns \<open>N + 1\<close> records of the
  name, the round of the monitor is the \<open>switch\<close> on the first record of the sequence,
  \<open>hd tasks\<close>, whatever the other records are, and the loop goes on as that \<open>switch\<close>
  decides.
\<close>

theorem handleTask_selects_first:
  assumes "scheduledTasks (ws i) name = Some (Inr tasks)" and "length tasks = Suc N"
  shows "handleTask_round (ws i) name (int N) = Some (handleTask_switch (ws i) (hd tasks))
    \<and> handleTask_loop ws name (int N) i out =
        (case handleTask_switch (ws i) (hd tasks) of
           (Returns Continue, evs) \<Rightarrow> handleTask_loop ws name (int N) (Suc i) (out @ evs)
         | (Returns (Return r), evs) \<Rightarrow> Some (Returns r, out @ evs)
         | (Exits n, evs) \<Rightarrow> Some (Exits n, out @ evs)
         | (Panics m, evs) \<Rightarrow> Some (Panics m, out @ evs))"
proof -
  from assms(2) obtain t rest where ts: "tasks = t # rest" by (cases tasks) auto
  with assms have r: "handleTask_round (ws i) name (int N) = Some (handleTask_switch (ws i) t)"
    by (intro handleTask_round_select) auto
  show ?thesis using r ts by (subst handleTask_loop.simps) simp
qed

text \<open>The theorem with baseline 1 in a catalog of two records named \<open>x\<close>.\<close>

theorem handleTask_selects_first_witness:
  "scheduledTasks (steady [job ''x'' TaskRunning, job ''x'' TaskFinished] 0) ''x''
     = Some (Inr [job ''x'' TaskRunning, job ''x'' TaskFinished])
   \<and> length [job ''x'' TaskRunning, job ''x'' TaskFinished] = Suc 1
   \<and> handleTask_round (steady [job ''x'' TaskRunning, job ''x'' TaskFinished] 0) ''x'' (int 1)
     = Some (handleTask_switch (steady [job ''x'' TaskRunning, job ''x'' TaskFinished] 0)
               (job ''x'' TaskRunning))"
proof -
  have h: "scheduledTasks (steady [job ''x'' TaskRunning, job ''x'' TaskFinished] 0) ''x''
     = Some (Inr [job ''x'' TaskRunning, job ''x'' TaskFinished])"
    by (simp add: steady_def scheduledTasks_sample State_job)
  have l: "length [job ''x'' TaskRunning, job ''x'' TaskFinished] = Suc 1" by simp
  from handleTask_selects_first
    [where ws = "steady [job ''x'' TaskRunning, job ''x'' TaskFinished]" and i = 0, OF h l]
  show ?thesis using h by simp
qed

text \<open>If the loop returns, some poll from the current one on failed or returned
  \<open>count + 1\<close> records.\<close>

lemma handleTask_loop_returns_selected:
  assumes "handleTask_loop ws name count i out = Some res"
  shows "\<exists>j\<ge>i. \<not> (\<exists>tasks. scheduledTasks (ws j) name = Some (Inr tasks)
            \<and> int (length tasks) \<noteq> count + 1)"
proof (rule handleTask_loop.raw_induct
    [where P = "\<lambda>ws name count i out res. \<exists>j\<ge>i. \<not> (\<exists>tasks.
        scheduledTasks (ws j) name = Some (Inr tasks) \<and> int (length tasks) \<noteq> count + 1)",
      OF _ assms])
  fix loop ws name count i out res
  assume IH: "\<And>ws name count i out res. loop ws name count i out = Some res \<Longrightarrow>
      \<exists>j\<ge>i. \<not> (\<exists>tasks. scheduledTasks (ws j) name = Some (Inr tasks)
            \<and> int (length tasks) \<noteq> count + 1)"
    and body: "(case handleTask_round (ws i) name count of
        None \<Rightarrow> None
      | Some (Returns Continue, evs) \<Rightarrow> loop ws name count (Suc i) (out @ evs)
      | Some (Returns (Return r), evs) \<Rightarrow> Some (Returns r, out @ evs)
      | Some (Exits n, evs) \<Rightarrow> Some (Exits n, out @ evs)
      | Some (Panics m, evs) \<Rightarrow> Some (Panics m, out @ evs)) = Some res"
  show "\<exists>j\<ge>i. \<not> (\<exists>tasks. scheduledTasks (ws j) name = Some (Inr tasks)
            \<and> int (length tasks) \<noteq> count + 1)"
  proof (cases "\<exists>tasks. scheduledTasks (ws i) name = Some (Inr tasks) \<and> int (length tasks) \<noteq> count + 1")
    case False
    then show ?thesis by blast
  next
    case True
    then obtain tasks where t: "scheduledTasks (ws i) name = Some (Inr tasks)"
      "int (length tasks) \<noteq> count + 1" by blast
    have "\<exists>evs. handleTask_round (ws i) name count = Some (Returns Continue, evs)"
      using t by (cases "int (length tasks) = count") (simp_all add: handleTask_round_def)
    then obtain evs where r: "handleTask_round (ws i) name count = Some (Returns Continue, evs)"
      by blast
    have l: "loop ws name count (Suc i) (out @ evs) = Some res"
      using body unfolding r by simp
    from IH[OF l] obtain j where j: "j \<ge> Suc i"
      "\<not> (\<exists>tasks. scheduledTasks (ws j) name = Some (Inr tasks) \<and> int (length tasks) \<noteq> count + 1)"
      by blast
    from j(1) have "j \<ge> i" by simp
    with j(2) show ?thesis by blast
  qed
qed

text \<open>
  Claim C9. A poll whose number of records is neither \<open>count\<close> nor \<open>count + 1\<close> selects
  no record, fails with nothing and prints nothing: the loop polls again. If from some poll
  on every poll returns records, and never exactly \<open>count + 1\<close> of them, the loop does not
  return.
\<close>

theorem handleTask_unexpected_count:
  "(scheduledTasks (ws i) name = Some (Inr tasks) \<and> int (length tasks) \<noteq> count
      \<and> int (length tasks) \<noteq> count + 1 \<longrightarrow>
      handleTask_round (ws i) name count = Some (Returns Continue, [])
      \<and> handleTask_loop ws name count i out = handleTask_loop ws name count (Suc i) out)
   \<and> ((\<forall>j\<ge>i. \<exists>tasks. scheduledTasks (ws j) name = Some (Inr tasks)
            \<and> int (length tasks) \<noteq> count + 1) \<longrightarrow>
        handleTask_loop ws name count i out = None)"
proof (intro conjI impI)
  assume a: "scheduledTasks (ws i) name = Some (Inr tasks) \<and> int (length tasks) \<noteq> count
      \<and> int (length tasks) \<noteq> count + 1"
  then show r: "handleTask_round (ws i) name count = Some (Returns Continue, [])"
    by (simp add: handleTask_round_other)
  from handleTask_loop_continue[where ws = ws and i = i, OF r]
  show "handleTask_loop ws name count i out = handleTask_loop ws name count (Suc i) out"
    by simp
next
  assume a: "\<forall>j\<ge>i. \<exists>tasks. scheduledTasks (ws j) name = Some (Inr tasks)
            \<and> int (length tasks) \<noteq> count + 1"
  show "handleTask_loop ws name count i out = None"
  proof (cases "handleTask_loop ws name count i out")
    case None then show ?thesis .
  next
    case (Some res)
    from handleTask_loop_returns_selected[OF this] a show ?thesis by blast
  qed
qed

text \<open>The theorem with baseline 0 and a catalog that always holds two records named
  \<open>x\<close>.\<close>

theorem handleTask_unexpected_count_witness:
  "scheduledTasks (steady [job ''x'' TaskRunning, job ''x'' TaskRunning] 0) ''x''
     = Some (Inr [job ''x'' TaskRunning, job ''x'' TaskRunning])
   \<and> handleTask_round (steady [job ''x'' TaskRunning, job ''x'' TaskRunning] 0) ''x'' 0
     = Some (Returns Continue, [])
   \<and> handleTask_loop (steady [job ''x'' TaskRunning, job ''x'' TaskRunning]) ''x'' 0 0 [] = None"
proof -
  have h: "scheduledTasks (steady [job ''x'' TaskRunning, job ''x'' TaskRunning] j) ''x''
     = Some (Inr [job ''x'' TaskRunning, job ''x'' TaskRunning])" for j
    by (simp add: steady_def scheduledTasks_sample State_job)
  have a: "\<forall>j\<ge>0. \<exists>tasks. scheduledTasks (steady [job ''x'' TaskRunning, job ''x'' TaskRunning] j) ''x''
       = Some (Inr tasks) \<and> int (length tasks) \<noteq> 0 + 1"
    using h by simp
  have n: "int (length [job ''x'' TaskRunning, job ''x'' TaskRunning]) \<noteq> 0"
    "int (length [job ''x'' TaskRunning, job ''x'' TaskRunning]) \<noteq> 0 + 1"
    by simp_all
  from handleTask_unexpected_count
    [where ws = "steady [job ''x'' TaskRunning, job ''x'' TaskRunning]" and i = 0
       and name = "''x''" and count = 0 and out = "[]"
       and tasks = "[job ''x'' TaskRunning, job ''x'' TaskRunning]"] h[of 0] a n
  have "handleTask_round (steady [job ''x'' TaskRunning, job ''x'' TaskRunning] 0) ''x'' 0
     = Some (Returns Continue, [])"
    and "handleTask_loop (steady [job ''x'' TaskRunning, job ''x'' TaskRunning]) ''x'' 0 0 [] = None"
    by blast+
  with h[of 0] show ?thesis by blast
qed


text \<open>The \<open>switch\<close> of \<open>handleTask\<close>, state by state.\<close>

lemma andThen_returns: "fst a = Returns u \<Longrightarrow> andThen a b = (fst b, snd a @ snd b)"
  by (simp add: andThen_def)



lemma switch_finished:
  "State t = TaskFinished \<Longrightarrow> fst (openLogPage w t) = Returns () \<Longrightarrow>
   fst (printLogs w t) = Returns () \<Longrightarrow> Duration t = Inr d \<Longrightarrow>
   handleTask_switch w t =
     (Returns (Return None),
      state_line t # snd (openLogPage w t) @ PrintFinished d # snd (printLogs w t))"
  by (simp add: handleTask_switch_def andThen_def states_distinct states_distinct[symmetric])

lemma switch_failed:
  "State t = TaskFailed \<Longrightarrow> fst (openLogPage w t) = Returns () \<Longrightarrow>
   fst (printLogs w t) = Returns () \<Longrightarrow> Duration t = Inr d \<Longrightarrow>
   handleTask_switch w t =
     (Returns (Return (Some (ErrTaskFailed d))),
      state_line t # snd (openLogPage w t) @ snd (printLogs w t))"
  by (simp add: handleTask_switch_def andThen_def states_distinct states_distinct[symmetric])




lemma handleTask_loop_switch_return:
  assumes "scheduledTasks (ws i) name = Some (Inr (t # rest))"
    and "int (length (t # rest)) = count + 1"
    and "handleTask_switch (ws i) t = (Returns (Return r), evs)"
  shows "handleTask_loop ws name count i out = Some (Returns r, out @ evs)"
proof -
  from handleTask_round_select[OF assms(1,2)] assms(3)
  have "handleTask_round (ws i) name count = Some (Returns (Return r), evs)" by simp
  then show ?thesis by (subst handleTask_loop.simps) simp
qed













text \<open>The duration, and the \<open>switch\<close> on a record whose duration cannot be computed.\<close>

lemma Duration_missing:
  "Start t = None \<or> Stop t = None \<Longrightarrow> Duration t = Inl ErrMissingTimestamp"
  by (auto simp: Duration_def split: option.splits)

lemma andThen_events: "set (snd (andThen a b)) \<subseteq> set (snd a) \<union> set (snd b)"
  by (auto simp: andThen_def split: outcome.splits)

lemma openLogPage_no_finished: "PrintFinished d \<notin> set (snd (openLogPage w t))"
  by (auto simp: openLogPage_def Let_def split: sum.splits if_splits option.splits)

lemma printLogs_no_finished: "PrintFinished d \<notin> set (snd (printLogs w t))"
  by (auto simp: printLogs_def Let_def split: sum.splits if_splits option.splits prod.splits)

lemma switch_killed_missing:
  "State t = TaskKilled \<Longrightarrow> Duration t = Inl e \<Longrightarrow>
   handleTask_switch w t = (Returns (Return (Some e)), [state_line t])"
  by (simp add: handleTask_switch_def andThen_def states_distinct states_distinct[symmetric])

lemma switch_finished_missing:
  "State t = TaskFinished \<Longrightarrow> fst (openLogPage w t) = Returns () \<Longrightarrow> Duration t = Inl e \<Longrightarrow>
   handleTask_switch w t = (Returns (Return (Some e)), state_line t # snd (openLogPage w t))"
  by (simp add: handleTask_switch_def andThen_def states_distinct states_distinct[symmetric])

lemma switch_failed_missing:
  "State t = TaskFailed \<Longrightarrow> fst (openLogPage w t) = Returns () \<Longrightarrow>
   fst (printLogs w t) = Returns () \<Longrightarrow> Duration t = Inl e \<Longrightarrow>
   handleTask_switch w t =
     (Returns (Return (Some e)), state_line t # snd (openLogPage w t) @ snd (printLogs w t))"
  by (simp add: handleTask_switch_def andThen_def states_distinct states_distinct[symmetric])

lemma switch_missing_no_duration:
  assumes "Duration t = Inl ErrMissingTimestamp"
  shows "PrintFinished d \<notin> set (snd (handleTask_switch w t))"
    and "fst (handleTask_switch w t) \<noteq> Returns (Return None)"
    and "fst (handleTask_switch w t) \<noteq> Returns (Return (Some (ErrTaskFailed d)))"
    and "fst (handleTask_switch w t) \<noteq> Returns (Return (Some (ErrTaskKilled d)))"
  using assms openLogPage_no_finished[of d w t] printLogs_no_finished[of d w t]
  by (auto simp: handleTask_switch_def andThen_def state_line_def split: outcome.splits if_splits)

text \<open>
  Claim C7. For a record with start timestamp \<open>t0\<close> and stop timestamp \<open>t1\<close>,
  \<open>t0 < t1\<close>, the duration is \<open>t1 - t0\<close>; for a record that misses either timestamp
  the computation fails with the missing-timestamp error. When the monitor has selected
  such a record in a terminal state it returns that error: at once for Killed, after the
  log page for Finished and after the log page and the logs for Failed (when these
  return). Whatever the log actions do, it reports no duration: it prints no
  \<open>task finished\<close> line and returns neither success nor an error that carries a duration.
\<close>

theorem Duration_missing_timestamp:
  assumes sel: "scheduledTasks (ws i) name = Some (Inr (t # rest))"
    and len: "int (length (t # rest)) = count + 1"
  shows
   "(Start t = Some t0 \<and> Stop t = Some t1 \<and> t0 < t1 \<longrightarrow> Duration t = Inr (t1 - t0))
    \<and> (Start t = None \<or> Stop t = None \<longrightarrow> Duration t = Inl ErrMissingTimestamp)
    \<and> ((Start t = None \<or> Stop t = None) \<and> State t = TaskKilled \<longrightarrow>
         handleTask_loop ws name count i out =
           Some (Returns (Some ErrMissingTimestamp), out @ [state_line t]))
    \<and> ((Start t = None \<or> Stop t = None) \<and> State t = TaskFinished
          \<and> fst (openLogPage (ws i) t) = Returns () \<longrightarrow>
         handleTask_loop ws name count i out =
           Some (Returns (Some ErrMissingTimestamp),
                 out @ state_line t # snd (openLogPage (ws i) t)))
    \<and> ((Start t = None \<or> Stop t = None) \<and> State t = TaskFailed
          \<and> fst (openLogPage (ws i) t) = Returns () \<and> fst (printLogs (ws i) t) = Returns () \<longrightarrow>
         handleTask_loop ws name count i out =
           Some (Returns (Some ErrMissingTimestamp),
                 out @ state_line t # snd (openLogPage (ws i) t) @ snd (printLogs (ws i) t)))
    \<and> (Start t = None \<or> Stop t = None \<longrightarrow>
         PrintFinished d \<notin> set (snd (handleTask_switch (ws i) t))
         \<and> fst (handleTask_switch (ws i) t) \<noteq> Returns (Return None)
         \<and> fst (handleTask_switch (ws i) t) \<noteq> Returns (Return (Some (ErrTaskFailed d)))
         \<and> fst (handleTask_switch (ws i) t) \<noteq> Returns (Return (Some (ErrTaskKilled d))))"
proof (intro conjI impI)
  assume "Start t = Some t0 \<and> Stop t = Some t1 \<and> t0 < t1"
  then show "Duration t = Inr (t1 - t0)" by (simp add: Duration_def)
next
  assume "Start t = None \<or> Stop t = None"
  then show "Duration t = Inl ErrMissingTimestamp" by (rule Duration_missing)
next
  assume "(Start t = None \<or> Stop t = None) \<and> State t = TaskKilled"
  then show "handleTask_loop ws name count i out =
           Some (Returns (Some ErrMissingTimestamp), out @ [state_line t])"
    by (intro handleTask_loop_switch_return[where ws = ws and i = i, OF sel len]
          switch_killed_missing Duration_missing) simp_all
next
  assume "(Start t = None \<or> Stop t = None) \<and> State t = TaskFinished
          \<and> fst (openLogPage (ws i) t) = Returns ()"
  then show "handleTask_loop ws name count i out =
           Some (Returns (Some ErrMissingTimestamp),
                 out @ state_line t # snd (openLogPage (ws i) t))"
    by (intro handleTask_loop_switch_return[where ws = ws and i = i, OF sel len]
          switch_finished_missing Duration_missing) simp_all
next
  assume "(Start t = None \<or> Stop t = None) \<and> State t = TaskFailed
          \<and> fst (openLogPage (ws i) t) = Returns () \<and> fst (printLogs (ws i) t) = Returns ()"
  then show "handleTask_loop ws name count i out =
           Some (Returns (Some ErrMissingTimestamp),
                 out @ state_line t # snd (openLogPage (ws i) t) @ snd (printLogs (ws i) t))"
    by (intro handleTask_loop_switch_return[where ws = ws and i = i, OF sel len]
          switch_failed_missing Duration_missing) simp_all
next
  assume m: "Start t = None \<or> Stop t = None"
  show "PrintFinished d \<notin> set (snd (handleTask_switch (ws i) t))"
    by (rule switch_missing_no_duration(1)[OF Duration_missing[OF m]])
  show "fst (handleTask_switch (ws i) t) \<noteq> Returns (Return None)"
    by (rule switch_missing_no_duration(2)[OF Duration_missing[OF m]])
  show "fst (handleTask_switch (ws i) t) \<noteq> Returns (Return (Some (ErrTaskFailed d)))"
    by (rule switch_missing_no_duration(3)[OF Duration_missing[OF m]])
  show "fst (handleTask_switch (ws i) t) \<noteq> Returns (Return (Some (ErrTaskKilled d)))"
    by (rule switch_missing_no_duration(4)[OF Duration_missing[OF m]])
qed


lemma unstopped_simps:
  "State (unstopped s) = s" "Name (unstopped s) = ''x''" "Stop (unstopped s) = None"
  by (simp_all add: unstopped_def job_def)

lemma openLogPage_unstopped:
  "openLogPage (sample_world c) (unstopped s) = openLogPage (sample_world c) (job ''x'' s)"
  by (simp add: openLogPage_def sample_world_def unstopped_def job_def)

lemma printLogs_unstopped:
  "printLogs (sample_world c) (unstopped s) = printLogs (sample_world c) (job ''x'' s)"
  by (simp add: printLogs_def log_stream_def sample_world_def unstopped_def job_def)

text \<open>The theorem on a sample job (start 0, stop 12) and on sample jobs without stop
  timestamp, one in each terminal state.\<close>

theorem Duration_missing_timestamp_witness:
  "Duration (job ''x'' TaskKilled) = Inr (12 - 0)
   \<and> Duration (unstopped TaskKilled) = Inl ErrMissingTimestamp
   \<and> handleTask_loop (steady [unstopped TaskKilled]) ''x'' 0 0 [] =
       Some (Returns (Some ErrMissingTimestamp), [state_line (unstopped TaskKilled)])
   \<and> handleTask_loop (steady [unstopped TaskFinished]) ''x'' 0 0 [] =
       Some (Returns (Some ErrMissingTimestamp),
             state_line (unstopped TaskFinished)
               # snd (openLogPage (sample_world []) (job ''x'' TaskFinished)))
   \<and> handleTask_loop (steady [unstopped TaskFailed]) ''x'' 0 0 [] =
       Some (Returns (Some ErrMissingTimestamp),
             state_line (unstopped TaskFailed)
               # snd (openLogPage (sample_world []) (job ''x'' TaskFailed))
               @ snd (printLogs (sample_world []) (job ''x'' TaskFailed)))"
proof -
  have sel: "scheduledTasks (steady [t] 0) (Name t) = Some (Inr (t # []))" for t
    by (simp add: steady_def scheduledTasks_sample)
  have len: "int (length (t # [])) = 0 + 1" for t :: Task
    by simp
  have 1: "Duration (job ''x'' TaskKilled) = Inr (12 - 0)"
    using Duration_missing_timestamp
      [where ws = "steady [job ''x'' TaskKilled]" and i = 0 and ?t0.0 = 0 and ?t1.0 = 12,
       OF sel len]
    by (simp add: job_def)
  have 2: "Duration (unstopped TaskKilled) = Inl ErrMissingTimestamp
     \<and> handleTask_loop (steady [unstopped TaskKilled]) ''x'' 0 0 [] =
       Some (Returns (Some ErrMissingTimestamp), [state_line (unstopped TaskKilled)])"
    using Duration_missing_timestamp
      [where ws = "steady [unstopped TaskKilled]" and i = 0 and out = "[]", OF sel len]
    by (simp add: unstopped_simps)
  have 3: "handleTask_loop (steady [unstopped TaskFinished]) ''x'' 0 0 [] =
       Some (Returns (Some ErrMissingTimestamp),
             state_line (unstopped TaskFinished)
               # snd (openLogPage (sample_world []) (job ''x'' TaskFinished)))"
    using Duration_missing_timestamp
      [where ws = "steady [unstopped TaskFinished]" and i = 0 and out = "[]", OF sel len]
    by (simp add: unstopped_simps steady_def openLogPage_unstopped openLogPage_sample)
  have 4: "handleTask_loop (steady [unstopped TaskFailed]) ''x'' 0 0 [] =
       Some (Returns (Some ErrMissingTimestamp),
             state_line (unstopped TaskFailed)
               # snd (openLogPage (sample_world []) (job ''x'' TaskFailed))
               @ snd (printLogs (sample_world []) (job ''x'' TaskFailed)))"
    using Duration_missing_timestamp
      [where ws = "steady [unstopped TaskFailed]" and i = 0 and out = "[]", OF sel len]
    by (simp add: unstopped_simps steady_def openLogPage_unstopped openLogPage_sample
          printLogs_unstopped printLogs_sample)
  from 1 2 3 4 show ?thesis by blast
qed


section \<open>Properties of the log retrieval\<close>

lemma sample_fields:
  "LogDirectory_print (sample_world c) t = Inr (Directory t)"
  "LogDirectory_open (sample_world c) t = Inr (Directory t)"
  "SlaveIP (sample_world c) t = Inr ''10.0.0.7''"
  by (simp_all add: sample_world_def)

lemma scheduledTasks_cong:
  "get_tasks w = get_tasks w' \<Longrightarrow> TasksFor w = TasksFor w' \<Longrightarrow>
   scheduledTasks w name = scheduledTasks w' name"
  by (simp add: scheduledTasks_def split: option.splits prod.splits sum.splits)

text \<open>
  Claim C5, as the code has it. An error of \<open>LogDirectory\<close>, in \<open>printLogs\<close> or in
  \<open>openLogPage\<close>, prints \<open>cannot fetch logs\<close> and exits the process with status -1. The
  other failures of the log retrieval that leave a response are not fatal: when the address
  of the worker cannot be resolved \<open>printLogs\<close> prints the error and returns; when the GET
  gives a response, \<open>printLogs\<close> returns, after the diagnostic
  \<open>could not fetch logs\<close> if the status is not 200 or an error came with the response, and
  after printing the error of the decoder if the payload does not decode. Whenever the log
  actions return, the outcome is the one of the terminal state: success for Finished, the
  failure with the duration for Failed.
\<close>

theorem printLogs_failures:
  "(LogDirectory_print w t = Inl err \<longrightarrow>
      printLogs w t = (Exits (- 1), [Print (''cannot fetch logs: '' @ err @ [CHR 0x0A])]))
   \<and> (LogDirectory_open w t = Inl err \<longrightarrow>
      openLogPage w t = (Exits (- 1), [Print (''cannot fetch logs: '' @ err @ [CHR 0x0A])]))
   \<and> (LogDirectory_print w t = Inr dir \<and> SlaveIP w t = Inl err \<longrightarrow>
      printLogs w t = (Returns (), [Print (err @ [CHR 0x0A])]))
   \<and> (LogDirectory_print w t = Inr dir \<and> SlaveIP w t = Inr ip
        \<and> http_Get w (log_url ip dir (log_stream t)) = (Some resp, e) \<longrightarrow>
      fst (printLogs w t) = Returns ()
      \<and> (e \<noteq> None \<or> StatusCode resp \<noteq> 200 \<longrightarrow>
           Print (''could not fetch logs: '' @ Status resp @ [CHR 0x0A]) \<in> set (snd (printLogs w t)))
      \<and> (fst (Decoded resp) = Some derr \<longrightarrow>
           Print (derr @ [CHR 0x0A]) \<in> set (snd (printLogs w t))))
   \<and> (fst (openLogPage w t) = Returns () \<and> fst (printLogs w t) = Returns ()
        \<and> Duration t = Inr d \<longrightarrow>
      (State t = TaskFinished \<longrightarrow> fst (handleTask_switch w t) = Returns (Return None))
      \<and> (State t = TaskFailed \<longrightarrow>
           fst (handleTask_switch w t) = Returns (Return (Some (ErrTaskFailed d)))))"
proof (intro conjI impI)
  assume "LogDirectory_print w t = Inl err"
  then show "printLogs w t = (Exits (- 1), [Print (''cannot fetch logs: '' @ err @ [CHR 0x0A])])"
    by (simp add: printLogs_def)
next
  assume "LogDirectory_open w t = Inl err"
  then show "openLogPage w t = (Exits (- 1), [Print (''cannot fetch logs: '' @ err @ [CHR 0x0A])])"
    by (simp add: openLogPage_def)
next
  assume "LogDirectory_print w t = Inr dir \<and> SlaveIP w t = Inl err"
  then show "printLogs w t = (Returns (), [Print (err @ [CHR 0x0A])])"
    by (simp add: printLogs_def)
next
  assume a: "LogDirectory_print w t = Inr dir \<and> SlaveIP w t = Inr ip
        \<and> http_Get w (log_url ip dir (log_stream t)) = (Some resp, e)"
  then show "fst (printLogs w t) = Returns ()"
    by (simp add: printLogs_def)
  {
    assume "e \<noteq> None \<or> StatusCode resp \<noteq> 200"
    with a show "Print (''could not fetch logs: '' @ Status resp @ [CHR 0x0A]) \<in> set (snd (printLogs w t))"
      by (auto simp: printLogs_def)
  }
  {
    assume "fst (Decoded resp) = Some derr"
    with a show "Print (derr @ [CHR 0x0A]) \<in> set (snd (printLogs w t))"
      by (simp add: printLogs_def)
  }
next
  assume a: "fst (openLogPage w t) = Returns () \<and> fst (printLogs w t) = Returns ()
        \<and> Duration t = Inr d"
  {
    assume "State t = TaskFinished"
    with a show "fst (handleTask_switch w t) = Returns (Return None)"
      by (simp add: switch_finished)
  }
  {
    assume "State t = TaskFailed"
    with a show "fst (handleTask_switch w t) = Returns (Return (Some (ErrTaskFailed d)))"
      by (simp add: switch_failed)
  }
qed

text \<open>The theorem in the sample worlds: a log directory that does not resolve, a worker
  whose address does not resolve, and a log file answered with 404 and a body that does
  not decode.\<close>

theorem printLogs_failures_witness:
  "printLogs (lost_directory 0) (job ''x'' TaskFinished)
     = (Exits (- 1), [Print (''cannot fetch logs: '' @ ''no such task'' @ [CHR 0x0A])])
   \<and> openLogPage lost_page (job ''x'' TaskFailed)
     = (Exits (- 1), [Print (''cannot fetch logs: '' @ ''no such task'' @ [CHR 0x0A])])
   \<and> printLogs unknown_worker (job ''x'' TaskFailed)
     = (Returns (), [Print (''no such slave'' @ [CHR 0x0A])])
   \<and> fst (printLogs missing_file (job ''x'' TaskFailed)) = Returns ()
   \<and> Print (''could not fetch logs: '' @ ''404 Not Found'' @ [CHR 0x0A])
        \<in> set (snd (printLogs missing_file (job ''x'' TaskFailed)))
   \<and> Print (''EOF'' @ [CHR 0x0A]) \<in> set (snd (printLogs missing_file (job ''x'' TaskFailed)))
   \<and> fst (handleTask_switch unknown_worker (job ''x'' TaskFailed))
     = Returns (Return (Some (ErrTaskFailed 12)))
   \<and> fst (handleTask_switch missing_file (job ''x'' TaskFailed))
     = Returns (Return (Some (ErrTaskFailed 12)))"
proof -
  have 1: "printLogs (lost_directory 0) (job ''x'' TaskFinished)
     = (Exits (- 1), [Print (''cannot fetch logs: '' @ ''no such task'' @ [CHR 0x0A])])"
    using printLogs_failures[where w = "lost_directory 0" and t = "job ''x'' TaskFinished"
        and err = "''no such task''"]
    by (simp add: lost_directory_def)
  have 2: "openLogPage lost_page (job ''x'' TaskFailed)
     = (Exits (- 1), [Print (''cannot fetch logs: '' @ ''no such task'' @ [CHR 0x0A])])"
    using printLogs_failures[where w = lost_page and t = "job ''x'' TaskFailed"
        and err = "''no such task''"]
    by (simp add: lost_page_def)
  have 3: "printLogs unknown_worker (job ''x'' TaskFailed)
     = (Returns (), [Print (''no such slave'' @ [CHR 0x0A])])"
    using printLogs_failures[where w = unknown_worker and t = "job ''x'' TaskFailed"
        and err = "''no such slave''" and dir = "Directory (job ''x'' TaskFailed)"]
    by (simp add: unknown_worker_def sample_fields)
  have g: "http_Get missing_file u = (Some \<lparr>StatusCode = 404, Status = ''404 Not Found'',
                                     Decoded = (Some ''EOF'', [])\<rparr>, None)" for u
    by (simp add: missing_file_def)
  have 4: "fst (printLogs missing_file (job ''x'' TaskFailed)) = Returns ()
   \<and> Print (''could not fetch logs: '' @ ''404 Not Found'' @ [CHR 0x0A])
        \<in> set (snd (printLogs missing_file (job ''x'' TaskFailed)))
   \<and> Print (''EOF'' @ [CHR 0x0A]) \<in> set (snd (printLogs missing_file (job ''x'' TaskFailed)))"
    using printLogs_failures[where w = missing_file and t = "job ''x'' TaskFailed"
        and dir = "Directory (job ''x'' TaskFailed)" and ip = "''10.0.0.7''"
        and resp = "\<lparr>StatusCode = 404, Status = ''404 Not Found'', Decoded = (Some ''EOF'', [])\<rparr>"
        and e = None and derr = "''EOF''"] g
    by (simp add: missing_file_def sample_fields)
  have o: "fst (openLogPage unknown_worker (job ''x'' TaskFailed)) = Returns ()"
    "fst (openLogPage missing_file (job ''x'' TaskFailed)) = Returns ()"
    by (simp_all add: openLogPage_def unknown_worker_def missing_file_def sample_world_def
        job_def Split_def Let_def)
  have 5: "fst (handleTask_switch unknown_worker (job ''x'' TaskFailed))
     = Returns (Return (Some (ErrTaskFailed 12)))"
    using printLogs_failures[where w = unknown_worker and t = "job ''x'' TaskFailed" and d = 12] o(1) 3
    by (simp add: State_job Duration_job states_distinct states_distinct[symmetric])
  have 6: "fst (handleTask_switch missing_file (job ''x'' TaskFailed))
     = Returns (Return (Some (ErrTaskFailed 12)))"
    using printLogs_failures[where w = missing_file and t = "job ''x'' TaskFailed" and d = 12] o(2) 4
    by (simp add: State_job Duration_job states_distinct states_distinct[symmetric])
  from 1 2 3 4 5 6 show ?thesis by blast
qed

text \<open>
  Claim C5 as the specification words it: no error of the log retrieval would abort the
  process or change the outcome. For a finished job whose log directory does not resolve
  in \<open>printLogs\<close>, the monitor does not return success: the process exits with status -1.
\<close>

theorem handleTask_log_directory_exit_counterexample:
  "handleTask lost_directory ''x'' 0 =
     Some (Exits (- 1),
       [Print (''scheduling task'' @ [CHR 0x0A]),
        state_line (job ''x'' TaskFinished),
        Open ''http://marathon/mesos/#/agents/S1/browse?path=/var/lib/mesos/slave/slaves/S1/frameworks/F/executors/E/runs/R'',
        PrintFinished 12,
        Print (''cannot fetch logs: no such task'' @ [CHR 0x0A])])"
proof -
  have "scheduledTasks (lost_directory 0) ''x'' = scheduledTasks (sample_world [job ''x'' TaskFinished]) ''x''"
    by (rule scheduledTasks_cong) (simp_all add: lost_directory_def)
  then have sel: "scheduledTasks (lost_directory 0) ''x'' = Some (Inr (job ''x'' TaskFinished # []))"
    by (simp add: scheduledTasks_sample State_job)
  have len: "int (length (job ''x'' TaskFinished # [])) = 0 + 1" by simp
  have o: "openLogPage (lost_directory 0) (job ''x'' TaskFinished) =
    (Returns (), [Open ''http://marathon/mesos/#/agents/S1/browse?path=/var/lib/mesos/slave/slaves/S1/frameworks/F/executors/E/runs/R''])"
    by (simp add: openLogPage_def lost_directory_def sample_world_def job_def Split_def Let_def)
  have p: "printLogs (lost_directory 0) (job ''x'' TaskFinished)
     = (Exits (- 1), [Print (''cannot fetch logs: no such task'' @ [CHR 0x0A])])"
    by (simp add: printLogs_def lost_directory_def)
  have sw: "handleTask_switch (lost_directory 0) (job ''x'' TaskFinished) =
     (Exits (- 1), [state_line (job ''x'' TaskFinished),
        Open ''http://marathon/mesos/#/agents/S1/browse?path=/var/lib/mesos/slave/slaves/S1/frameworks/F/executors/E/runs/R'',
        PrintFinished 12,
        Print (''cannot fetch logs: no such task'' @ [CHR 0x0A])])"
    by (simp add: handleTask_switch_def andThen_def o p State_job Duration_job
        states_distinct states_distinct[symmetric])
  from handleTask_round_select[OF sel len] sw
  have "handleTask_round (lost_directory 0) ''x'' 0 = Some (Exits (- 1),
      [state_line (job ''x'' TaskFinished),
        Open ''http://marathon/mesos/#/agents/S1/browse?path=/var/lib/mesos/slave/slaves/S1/frameworks/F/executors/E/runs/R'',
        PrintFinished 12,
        Print (''cannot fetch logs: no such task'' @ [CHR 0x0A])])"
    by simp
  from handleTask_loop_exit[where ws = lost_directory and i = 0, OF this]
  show ?thesis by (simp add: handleTask_def)
qed


text \<open>
  Claim C10. When the GET of the log file gives a transport error and no response,
  \<open>printLogs\<close> does not return before it reads the response: it reads \<open>resp.Status\<close>
  for the diagnostic on the absent response, which is a nil dereference, and the monitor
  of a failed or finished job panics there instead of returning its outcome.
\<close>

theorem printLogs_transport_error:
  assumes "LogDirectory_print w t = Inr dir" and "SlaveIP w t = Inr ip"
    and "http_Get w (log_url ip dir (log_stream t)) = (None, Some err)"
  shows "printLogs w t = (Panics ''nil pointer dereference: resp.Status'', [])
    \<and> (State t = TaskFailed \<and> fst (openLogPage w t) = Returns () \<longrightarrow>
         fst (handleTask_switch w t) = Panics ''nil pointer dereference: resp.Status'')
    \<and> (State t = TaskFinished \<and> fst (openLogPage w t) = Returns () \<and> Duration t = Inr d \<longrightarrow>
         fst (handleTask_switch w t) = Panics ''nil pointer dereference: resp.Status'')"
proof -
  from assms have p: "printLogs w t = (Panics ''nil pointer dereference: resp.Status'', [])"
    by (simp add: printLogs_def)
  then show ?thesis
    by (simp add: handleTask_switch_def andThen_def states_distinct states_distinct[symmetric])
qed

text \<open>The theorem for a failed job on a worker that refuses the connection.\<close>

theorem printLogs_transport_error_witness:
  "LogDirectory_print unreachable_worker (job ''x'' TaskFailed) = Inr (Directory (job ''x'' TaskFailed))
   \<and> SlaveIP unreachable_worker (job ''x'' TaskFailed) = Inr ''10.0.0.7''
   \<and> http_Get unreachable_worker
        (log_url ''10.0.0.7'' (Directory (job ''x'' TaskFailed)) (log_stream (job ''x'' TaskFailed)))
      = (None, Some ''connection refused'')
   \<and> printLogs unreachable_worker (job ''x'' TaskFailed)
      = (Panics ''nil pointer dereference: resp.Status'', [])
   \<and> fst (handleTask_switch unreachable_worker (job ''x'' TaskFailed))
      = Panics ''nil pointer dereference: resp.Status''"
proof -
  have 1: "LogDirectory_print unreachable_worker (job ''x'' TaskFailed) = Inr (Directory (job ''x'' TaskFailed))"
    and 2: "SlaveIP unreachable_worker (job ''x'' TaskFailed) = Inr ''10.0.0.7''"
    and 3: "http_Get unreachable_worker
        (log_url ''10.0.0.7'' (Directory (job ''x'' TaskFailed)) (log_stream (job ''x'' TaskFailed)))
      = (None, Some ''connection refused'')"
    by (simp_all add: unreachable_worker_def sample_world_def)
  have o: "fst (openLogPage unreachable_worker (job ''x'' TaskFailed)) = Returns ()"
    by (simp add: openLogPage_def unreachable_worker_def sample_world_def job_def Split_def Let_def)
  from printLogs_transport_error[OF 1 2 3] o 1 2 3 show ?thesis
    by (simp add: State_job)
qed

section \<open>Properties of the catalog fetch\<close>

lemma map_upt_Suc_shift: "map f [0..<Suc n] = f 0 # map (\<lambda>k. f (Suc k)) [0..<n]"
  by (simp add: map_upt_Suc del: upt_Suc)

text \<open>The loop from any offset, over pages of 100 records followed by a shorter
  one.\<close>

lemma scheduledTasks_loop_pages:
  assumes "list_all (\<lambda>p. length p = 100) init" and "length lastp < 100"
    and "\<forall>k\<le>length init. get (offset + 100 * int k) = Inr ((init @ [lastp]) ! k)"
  shows "scheduledTasks_loop get offset tasks reqs =
     Some (Inr (tasks @ concat init @ lastp),
           reqs @ map (\<lambda>k. offset + 100 * int k) [0..<Suc (length init)])"
  using assms
proof (induction init arbitrary: offset tasks reqs)
  case Nil
  then have "get offset = Inr lastp" by simp
  with Nil.prems(2) show ?case
    by (subst scheduledTasks_loop.simps) simp
next
  case (Cons p init)
  from Cons.prems(3) have g0: "get offset = Inr p"
    by (metis add.right_neutral append_Cons le0 mult_zero_right nth_Cons_0 of_nat_0)
  from Cons.prems(1) have lp: "length p = 100" and rest: "list_all (\<lambda>p. length p = 100) init"
    by simp_all
  have shifted: "\<forall>k\<le>length init. get (offset + 100 + 100 * int k) = Inr ((init @ [lastp]) ! k)"
  proof (intro allI impI)
    fix k assume "k \<le> length init"
    then have "Suc k \<le> length (p # init)" by simp
    with Cons.prems(3) have "get (offset + 100 * int (Suc k)) = Inr (((p # init) @ [lastp]) ! Suc k)"
      by blast
    then show "get (offset + 100 + 100 * int k) = Inr ((init @ [lastp]) ! k)"
      by (simp add: algebra_simps)
  qed
  have "scheduledTasks_loop get offset tasks reqs =
      scheduledTasks_loop get (offset + 100) (tasks @ p) (reqs @ [offset])"
    using g0 lp by (subst scheduledTasks_loop.simps) simp
  also have "\<dots> = Some (Inr ((tasks @ p) @ concat init @ lastp),
           (reqs @ [offset]) @ map (\<lambda>k. offset + 100 + 100 * int k) [0..<Suc (length init)])"
    by (rule Cons.IH[OF rest Cons.prems(2) shifted])
  also have "(reqs @ [offset]) @ map (\<lambda>k. offset + 100 + 100 * int k) [0..<Suc (length init)]
      = reqs @ map (\<lambda>k. offset + 100 * int k) [0..<Suc (length (p # init))]"
  proof -
    have "map (\<lambda>k. offset + 100 * int k) [0..<Suc (Suc (length init))]
        = (offset + 100 * int 0) # map (\<lambda>k. offset + 100 * int (Suc k)) [0..<Suc (length init)]"
      by (rule map_upt_Suc_shift)
    also have "(\<lambda>k. offset + 100 * int (Suc k)) = (\<lambda>k. offset + 100 + 100 * int k)"
      by (rule ext) (simp add: algebra_simps)
    finally show ?thesis by (simp del: upt_Suc)
  qed
  finally show ?case by simp
qed

text \<open>
  Claim C4. Let the answers of the catalog to the offsets 0, 100, 200, ... be the pages
  \<open>init\<close>, each of exactly 100 records, followed by the page \<open>lastp\<close> of fewer than 100.
  Then the loop of \<open>scheduledTasks\<close> returns; it has requested the offsets
  0, 100, ..., one for each page, each once; it has accumulated the concatenation of the
  pages in their order; and \<open>scheduledTasks\<close> is \<open>TasksFor\<close> of the name on that
  concatenation.
\<close>

theorem scheduledTasks_pagination:
  assumes "list_all (\<lambda>p. length p = 100) init" and "length lastp < 100"
    and "map (get_tasks w) (map (\<lambda>k. 100 * int k) [0..<Suc (length init)]) = map Inr (init @ [lastp])"
  shows "scheduledTasks_loop (get_tasks w) 0 [] [] =
           Some (Inr (concat (init @ [lastp])), map (\<lambda>k. 100 * int k) [0..<Suc (length init)])
     \<and> distinct (map (\<lambda>k. 100 * int k) [0..<Suc (length init)])
     \<and> scheduledTasks w name = Some (TasksFor w name (concat (init @ [lastp])))"
proof -
  have pages: "\<forall>k\<le>length init. get_tasks w (0 + 100 * int k) = Inr ((init @ [lastp]) ! k)"
  proof (intro allI impI)
    fix k assume k: "k \<le> length init"
    then have e1: "map (get_tasks w) (map (\<lambda>k. 100 * int k) [0..<Suc (length init)]) ! k
        = get_tasks w (100 * int k)"
      by (simp del: upt_Suc)
    from k have "k < length (init @ [lastp])" by simp
    then have e2: "map Inr (init @ [lastp]) ! k = Inr ((init @ [lastp]) ! k)"
      by (rule nth_map)
    have "get_tasks w (100 * int k) = Inr ((init @ [lastp]) ! k)"
      by (rule trans[OF sym[OF e1[unfolded assms(3)]] e2])
    then show "get_tasks w (0 + 100 * int k) = Inr ((init @ [lastp]) ! k)"
      by simp
  qed
  have loop: "scheduledTasks_loop (get_tasks w) 0 [] [] =
           Some (Inr (concat (init @ [lastp])), map (\<lambda>k. 100 * int k) [0..<Suc (length init)])"
    using scheduledTasks_loop_pages[OF assms(1,2) pages, of "[]" "[]"] by simp
  have "inj_on (\<lambda>k. 100 * int k) (set [0..<Suc (length init)])"
    by (rule inj_onI) simp
  then have "distinct (map (\<lambda>k. 100 * int k) [0..<Suc (length init)])"
    by (simp add: distinct_map del: upt_Suc)
  moreover have "scheduledTasks w name = Some (TasksFor w name (concat (init @ [lastp])))"
    unfolding scheduledTasks_def loop by simp
  ultimately show ?thesis using loop by blast
qed

text \<open>The theorem for a catalog of 101 records: a page of 100 records named \<open>y\<close> and a
  page of one record named \<open>x\<close>.\<close>

theorem scheduledTasks_pagination_witness:
  "list_all (\<lambda>p. length p = 100) [replicate 100 (job ''y'' TaskFinished)]
   \<and> length [job ''x'' TaskRunning] < 100
   \<and> scheduledTasks_loop
       (get_tasks (sample_world (replicate 100 (job ''y'' TaskFinished) @ [job ''x'' TaskRunning])))
       0 [] []
     = Some (Inr (replicate 100 (job ''y'' TaskFinished) @ [job ''x'' TaskRunning]), [0, 100])
   \<and> scheduledTasks
       (sample_world (replicate 100 (job ''y'' TaskFinished) @ [job ''x'' TaskRunning])) ''x''
     = Some (Inr [job ''x'' TaskRunning])"
proof -
  let ?c = "replicate 100 (job ''y'' TaskFinished) @ [job ''x'' TaskRunning]"
  have a: "list_all (\<lambda>p. length p = 100) [replicate 100 (job ''y'' TaskFinished)]" by simp
  have b: "length [job ''x'' TaskRunning] < 100" by simp
  have u: "[0..<Suc (length [replicate 100 (job ''y'' TaskFinished)])] = [0, 1]"
    by (simp add: upt_rec)
  have c: "map (get_tasks (sample_world ?c))
      (map (\<lambda>k. 100 * int k) [0..<Suc (length [replicate 100 (job ''y'' TaskFinished)])])
     = map Inr ([replicate 100 (job ''y'' TaskFinished)] @ [[job ''x'' TaskRunning]])"
    unfolding u by (simp add: sample_world_def)
  have t: "TasksFor (sample_world ?c) ''x'' ?c = Inr [job ''x'' TaskRunning]"
    by (simp add: sample_world_def State_job)
  from scheduledTasks_pagination[OF a b c, of "''x''"] a b t show ?thesis
    unfolding u by simp
qed


section \<open>Properties of the submission\<close>

lemma after_not_silent: "after [e] r \<noteq> Some (x, [])"
  by (cases r) (auto simp: after_def)

text \<open>
  Claim C8. When the baseline fetch, the rendering and the POST have succeeded, the
  submission is accepted if and only if the status of the response is 204 (no content). On
  any other status \<open>launchChronosOneOffCommand\<close> returns the error that carries the body of
  the response, with no output at all: the monitor is not entered, whatever the later
  worlds \<open>ws\<close> are. On 204 it prints the \<open>executing\<close> line and runs the monitor with the
  number of records of the baseline fetch.
\<close>

theorem launchChronosOneOffCommand_acceptance:
  assumes "scheduledTasks w (TaskName task) = Some (Inr tasks)"
    and "render w task = Inr cj"
    and "http_Post w url cj = Inr (code, body)"
  shows "(code \<noteq> 204 \<longrightarrow>
           launchChronosOneOffCommand w ws url task = Some (Returns (Some (ErrLaunch body)), []))
     \<and> (code = 204 \<longrightarrow>
           launchChronosOneOffCommand w ws url task =
             after [executing_line task] (handleTask ws (TaskName task) (int (length tasks))))
     \<and> (launchChronosOneOffCommand w ws url task = Some (Returns (Some (ErrLaunch body)), [])
           \<longleftrightarrow> code \<noteq> 204)"
  using assms by (simp add: launchChronosOneOffCommand_def after_not_silent)

text \<open>The theorem for a scheduler that answers 500 with the body \<open>boom\<close>, and for one
  that answers 204.\<close>

theorem launchChronosOneOffCommand_acceptance_witness:
  "launchChronosOneOffCommand rejecting sample_run ''http://chronos/submit'' sample_task
     = Some (Returns (Some (ErrLaunch ''boom'')), [])
   \<and> launchChronosOneOffCommand (sample_world []) sample_run ''http://chronos/submit'' sample_task
     = after [executing_line sample_task] (handleTask sample_run ''x'' 0)"
proof -
  have "scheduledTasks rejecting ''x'' = scheduledTasks (sample_world []) ''x''"
    by (rule scheduledTasks_cong) (simp_all add: rejecting_def)
  then have s1: "scheduledTasks rejecting (TaskName sample_task) = Some (Inr [])"
    by (simp add: scheduledTasks_sample sample_task_def)
  have r1: "render rejecting sample_task = Inr ''{}''"
    and p1: "http_Post rejecting ''http://chronos/submit'' ''{}'' = Inr (500, ''boom'')"
    by (simp_all add: rejecting_def sample_world_def)
  have s2: "scheduledTasks (sample_world []) (TaskName sample_task) = Some (Inr [])"
    by (simp add: scheduledTasks_sample)
  have r2: "render (sample_world []) sample_task = Inr ''{}''"
    and p2: "http_Post (sample_world []) ''http://chronos/submit'' ''{}'' = Inr (204, [])"
    by (simp_all add: sample_world_def)
  from launchChronosOneOffCommand_acceptance[OF s1 r1 p1, of sample_run]
    launchChronosOneOffCommand_acceptance[OF s2 r2 p2, of sample_run]
  show ?thesis by (simp add: sample_task_def)
qed


end
